theory Spec2Isabelle
  imports Main "HOL-Library.Word" "HOL-Library.Sublist" "HOL-Library.Multiset"
begin

section \<open>JavaScript values used by the sources\<close>

text \<open>
  A JavaScript string is a sequence of 16-bit code units; \<open>length\<close>, \<open>slice\<close>,
  \<open>indexOf\<close> and \<open>startsWith\<close> all count code units. \<open>js\<close> embeds an ASCII
  literal of the source.
\<close>

type_synonym code_unit = "16 word"

type_synonym jsstring = "code_unit list"

definition js :: "string \<Rightarrow> jsstring" where
  "js s = map (\<lambda>c. of_nat (of_char c)) s"

definition nl :: jsstring where
  "nl = [0x0A]"

text \<open>An \<open>Error\<close> thrown with a message.\<close>

datatype js_error = Error jsstring

text \<open>
  Truthiness, as \<open>val ? a : b\<close>, \<open>if (val)\<close> and \<open>!val\<close> test it. An optional
  boolean is \<open>undefined\<close> (\<open>None\<close>, falsy) or a boolean; an optional string is
  \<open>undefined\<close> (falsy) or a string, and the empty string is falsy.
\<close>

fun truthy :: "bool option \<Rightarrow> bool" where
  "truthy None = False"
| "truthy (Some b) = b"

fun truthyStr :: "jsstring option \<Rightarrow> bool" where
  "truthyStr None = False"
| "truthyStr (Some s) = (s \<noteq> [])"

text \<open>Optional chaining \<open>obj?.field\<close>: \<open>undefined\<close> when \<open>obj\<close> is.\<close>

fun optChain :: "'a option \<Rightarrow> ('a \<Rightarrow> 'b option) \<Rightarrow> 'b option" where
  "optChain None field = None"
| "optChain (Some obj) field = field obj"




section \<open>The documentation generator (profile-moderation-behaviors.mjs)\<close>

text \<open>
  A scenario of \<open>profile-moderation-behaviors.json\<close>:
  \<open>{behaviors: {account?, profile?, avatar?: {filter?, blur?, noOverride?, alert?}}}\<close>.
  Every flag is a boolean or absent.
\<close>

record entity_behavior =
  bh_filter :: "bool option"
  bh_blur :: "bool option"
  bh_noOverride :: "bool option"
  bh_alert :: "bool option"

record scenario_behaviors =
  account :: "entity_behavior option"
  profile :: "entity_behavior option"
  avatar :: "entity_behavior option"

record scenario =
  behaviors :: scenario_behaviors

text \<open>The four markers of the key, as UTF-16 code units.\<close>

definition mark_filter :: jsstring where
  "mark_filter = [0x274C]"

definition mark_blur_noOverride :: jsstring where
  "mark_blur_noOverride = [0xD83D, 0xDEAB]"

definition mark_blur :: jsstring where
  "mark_blur = [0x270B]"

definition mark_alert :: jsstring where
  "mark_alert = [0xD83E, 0xDEA7]"

text \<open>\<open>function filter(val)\<close>\<close>

definition filter_js :: "bool option \<Rightarrow> jsstring" where
  "filter_js val = (if truthy val then mark_filter else [])"

text \<open>\<open>function blur(val, noOverride)\<close>\<close>

definition blur :: "bool option \<Rightarrow> bool option \<Rightarrow> jsstring" where
  "blur val noOverride =
     (if truthy val then (if truthy noOverride then mark_blur_noOverride else mark_blur)
      else [])"

text \<open>\<open>function alert(val)\<close>\<close>

definition alert :: "bool option \<Rightarrow> jsstring" where
  "alert val = (if truthy val then mark_alert else [])"

text \<open>
  The substitutions of the row template. The three entity columns are the same two
  expressions over \<open>behaviors.account\<close>, \<open>behaviors.profile\<close> and
  \<open>behaviors.avatar\<close>.
\<close>

datatype entity = Account_col | Profile_col | Avatar_col

fun entityOf :: "scenario_behaviors \<Rightarrow> entity \<Rightarrow> entity_behavior option" where
  "entityOf b Account_col = account b"
| "entityOf b Profile_col = profile b"
| "entityOf b Avatar_col = avatar b"

definition filterCell :: "scenario \<Rightarrow> jsstring" where
  "filterCell scenario = filter_js (optChain (account (behaviors scenario)) bh_filter)"

definition blurCell :: "scenario \<Rightarrow> entity \<Rightarrow> jsstring" where
  "blurCell scenario e =
     blur (optChain (entityOf (behaviors scenario) e) bh_blur)
          (optChain (entityOf (behaviors scenario) e) bh_noOverride)"

definition alertCell :: "scenario \<Rightarrow> entity \<Rightarrow> jsstring" where
  "alertCell scenario e = alert (optChain (entityOf (behaviors scenario) e) bh_alert)"

text \<open>
  \<open>function scenarioSection(title, scenario)\<close>. The tag \<open>stripIndents\<close> of the
  library common-tags receives the template with its substitutions filled in; it is a
  parameter here.
\<close>

definition entityColumn :: "scenario \<Rightarrow> entity \<Rightarrow> jsstring" where
  "entityColumn scenario e =
     js ''    <td>'' @ nl @
     js ''      '' @ blurCell scenario e @ nl @
     js ''      '' @ alertCell scenario e @ nl @
     js ''    </td>'' @ nl"

definition scenarioSection ::
  "(jsstring \<Rightarrow> jsstring) \<Rightarrow> jsstring \<Rightarrow> scenario \<Rightarrow> jsstring" where
  "scenarioSection stripIndents title scenario =
     stripIndents
      (nl @
       js ''  <tr>'' @ nl @
       js ''    <td><strong>'' @ title @ js ''</strong></td>'' @ nl @
       js ''    <td>'' @ nl @
       js ''      '' @ filterCell scenario @ nl @
       js ''    </td>'' @ nl @
       entityColumn scenario Account_col @
       entityColumn scenario Profile_col @
       entityColumn scenario Avatar_col @
       js ''  </tr>'' @ nl @
       js ''  '')"







section \<open>The server configuration (class ServerConfig)\<close>

text \<open>
  \<open>ServerConfigValues\<close>: the constructor reads \<open>availableUserDomains\<close> only; the
  other fields are the record's extension.
\<close>

record serverConfigValues =
  availableUserDomains :: "jsstring list"

text \<open>
  \<open>constructor(private cfg: ServerConfigValues)\<close>. \<open>Array.prototype.find\<close> gives
  the first element that satisfies the test, or \<open>undefined\<close>;
  \<open>if (invalidDomain)\<close> then tests what it gave for truthiness. The result is the
  error thrown, or the configuration the new object holds.
\<close>

definition ServerConfig_constructor ::
  "'a serverConfigValues_scheme \<Rightarrow> js_error + 'a serverConfigValues_scheme" where
  "ServerConfig_constructor cfg =
     (let invalidDomain =
            find (\<lambda>domain. length domain < 1 \<or> \<not> prefix (js ''.'') domain)
              (availableUserDomains cfg)
      in if truthyStr invalidDomain
         then (case invalidDomain of
                 Some d \<Rightarrow> Inl (Error (js ''Invalid domain: '' @ d))
               | None \<Rightarrow> Inl (Error (js ''Invalid domain: undefined'')))
         else Inr cfg)"


section \<open>The seed client's moderation wrappers (tests/seeds/client.ts)\<close>

text \<open>
  The inputs the three XRPC procedures are called with, and the call options
  \<open>{encoding, headers}\<close>. The types of \<open>action\<close> and \<open>subject\<close> are those of
  the lexicon's \<open>TakeActionInput\<close>, left open here.
\<close>

record ('a, 's) takeActionBody =
  tb_action :: 'a
  tb_subject :: 's
  tb_createdBy :: jsstring
  tb_reason :: jsstring

record reverseActionBody =
  rb_id :: int
  rb_reason :: jsstring
  rb_createdBy :: jsstring

record resolveReportsBody =
  sb_actionId :: int
  sb_createdBy :: jsstring
  sb_reportIds :: "int list"

record callOptions =
  encoding :: jsstring
  headers :: "(jsstring \<times> jsstring) list"

datatype ('a, 's) request =
    TakeModerationAction "('a, 's) takeActionBody" callOptions
  | ReverseModerationAction reverseActionBody callOptions
  | ResolveModerationReports resolveReportsBody callOptions

text \<open>An XRPC response; the wrappers return its \<open>data\<close>.\<close>

record 'd response =
  data :: 'd

text \<open>
  The client: \<open>agent\<close> issues a request against the server (whose state is \<open>'w\<close>)
  and either throws or yields a response; \<open>adminAuth\<close> is the optional constructor
  argument.
\<close>

record ('a, 's, 'w, 'd) seedClient =
  agent :: "('a, 's) request \<Rightarrow> 'w \<Rightarrow> (js_error + 'd response) \<times> 'w"
  adminAuth :: "jsstring option"

text \<open>The \<open>opts\<close> arguments; \<open>reason\<close> and \<open>createdBy\<close> may be omitted.\<close>

record ('a, 's) takeActionOpts =
  to_action :: 'a
  to_subject :: 's
  to_reason :: "jsstring option"
  to_createdBy :: "jsstring option"

record reverseActionOpts =
  ro_id :: int
  ro_reason :: "jsstring option"
  ro_createdBy :: "jsstring option"

record resolveReportsOpts =
  so_actionId :: int
  so_reportIds :: "int list"
  so_createdBy :: "jsstring option"

text \<open>A destructuring default \<open>{x = d} = opts\<close>: \<open>d\<close> when \<open>opts.x\<close> is undefined.\<close>

fun orDefault :: "jsstring option \<Rightarrow> jsstring \<Rightarrow> jsstring" where
  "orDefault None d = d"
| "orDefault (Some v) d = v"

definition noAdminAuth :: js_error where
  "noAdminAuth = Error (js ''No admin auth provided to seed client'')"

text \<open>
  \<open>headers: { authorization: this.adminAuth }\<close>, read after the guard
  \<open>if (!this.adminAuth) throw\<close> has passed.
\<close>

definition adminCall :: "jsstring option \<Rightarrow> callOptions" where
  "adminCall auth =
     \<lparr>encoding = js ''application/json'',
      headers = [(js ''authorization'', (case auth of Some a \<Rightarrow> a | None \<Rightarrow> []))]\<rparr>"

text \<open>\<open>const result = await ...; return result.data\<close>: a rejection propagates.\<close>

fun returnData :: "(js_error + 'd response) \<times> 'w \<Rightarrow> (js_error + 'd) \<times> 'w" where
  "returnData (Inl e, w) = (Inl e, w)"
| "returnData (Inr result, w) = (Inr (data result), w)"

text \<open>\<open>SeedClient.takeModerationAction(opts)\<close>\<close>

definition takeModerationAction ::
  "('a, 's, 'w, 'd) seedClient \<Rightarrow> ('a, 's) takeActionOpts \<Rightarrow> 'w \<Rightarrow> (js_error + 'd) \<times> 'w" where
  "takeModerationAction this opts w =
     (if \<not> truthyStr (adminAuth this) then (Inl noAdminAuth, w)
      else
        (let action = to_action opts;
             subject = to_subject opts;
             reason = orDefault (to_reason opts) (js ''X'');
             createdBy = orDefault (to_createdBy opts) (js ''did:example:admin'')
         in returnData
              (agent this
                 (TakeModerationAction
                    \<lparr>tb_action = action, tb_subject = subject,
                     tb_createdBy = createdBy, tb_reason = reason\<rparr>
                    (adminCall (adminAuth this)))
                 w)))"

text \<open>\<open>SeedClient.reverseModerationAction(opts)\<close>\<close>

definition reverseModerationAction ::
  "('a, 's, 'w, 'd) seedClient \<Rightarrow> reverseActionOpts \<Rightarrow> 'w \<Rightarrow> (js_error + 'd) \<times> 'w" where
  "reverseModerationAction this opts w =
     (if \<not> truthyStr (adminAuth this) then (Inl noAdminAuth, w)
      else
        (let id' = ro_id opts;
             reason = orDefault (ro_reason opts) (js ''X'');
             createdBy = orDefault (ro_createdBy opts) (js ''did:example:admin'')
         in returnData
              (agent this
                 (ReverseModerationAction
                    \<lparr>rb_id = id', rb_reason = reason, rb_createdBy = createdBy\<rparr>
                    (adminCall (adminAuth this)))
                 w)))"

text \<open>\<open>SeedClient.resolveReports(opts)\<close>\<close>

definition resolveReports_client ::
  "('a, 's, 'w, 'd) seedClient \<Rightarrow> resolveReportsOpts \<Rightarrow> 'w \<Rightarrow> (js_error + 'd) \<times> 'w" where
  "resolveReports_client this opts w =
     (if \<not> truthyStr (adminAuth this) then (Inl noAdminAuth, w)
      else
        (let actionId = so_actionId opts;
             reportIds = so_reportIds opts;
             createdBy = orDefault (so_createdBy opts) (js ''did:example:admin'')
         in returnData
              (agent this
                 (ResolveModerationReports
                    \<lparr>sb_actionId = actionId, sb_createdBy = createdBy,
                     sb_reportIds = reportIds\<rparr>
                    (adminCall (adminAuth this)))
                 w)))"


section \<open>The action and report ledger\<close>

text \<open>
  The moderation service that the endpoint and the seed client's requests reach is not
  among the sources; this section models it from the specification's data model and
  component design.
\<close>

text \<open>Modelled from the spec: the Subject tagged union of the data model.\<close>

datatype subject =
    Account string
  | Record string string
  | Blob string

text \<open>Modelled from the spec: a subject is well-formed when its identifier and hash
  are non-empty.\<close>

fun wellFormed :: "subject \<Rightarrow> bool" where
  "wellFormed (Account actorId) = (actorId \<noteq> [])"
| "wellFormed (Record collectionUri contentHash) = (collectionUri \<noteq> [] \<and> contentHash \<noteq> [])"
| "wellFormed (Blob contentHash) = (contentHash \<noteq> [])"

text \<open>Modelled from the spec: the action kinds and the two statuses.\<close>

datatype actionKind = Takedown | Acknowledge | Flag | Escalate | Mute

datatype actionStatus = Active | Reversed

text \<open>Modelled from the spec: ModerationAction. The reversal fields are present only
  when the action is reversed; timestamps are natural numbers.\<close>

record moderationAction =
  ma_id :: int
  ma_kind :: actionKind
  ma_subject :: subject
  ma_reason :: string
  ma_createdBy :: string
  ma_createdAt :: nat
  ma_reversedBy :: "string option"
  ma_reversedAt :: "nat option"
  ma_reversedReason :: "string option"

text \<open>Modelled from the spec: the derived status, Active iff \<open>reversedAt\<close> is unset.\<close>

definition status :: "moderationAction \<Rightarrow> actionStatus" where
  "status a = (if ma_reversedAt a = None then Active else Reversed)"

text \<open>Modelled from the spec: ModerationReport, over an open enumeration \<open>'rt\<close> of
  report categories.\<close>

record 'rt moderationReport =
  mr_id :: int
  mr_reasonType :: 'rt
  mr_subject :: subject
  mr_reportedBy :: string
  mr_reason :: string
  mr_createdAt :: nat
  mr_resolvingActionId :: "int option"

text \<open>Modelled from the spec: the persistent store behind both ledgers: the actions and
  the reports in order of creation, and the next identifier of each.\<close>

record 'rt ledger =
  actions :: "moderationAction list"
  reports :: "'rt moderationReport list"
  nextActionId :: int
  nextReportId :: int

text \<open>Modelled from the spec: the error taxonomy of the ledger.\<close>

datatype ledger_error = InvalidSubject | NotFound | AlreadyReversed | AlreadyResolved

text \<open>Modelled from the spec: \<open>takeAction(kind, subject, reason, createdBy)\<close>, at time
  \<open>now\<close>. Every operation gives its result and the store after it.\<close>

definition takeAction ::
  "'rt ledger \<Rightarrow> actionKind \<Rightarrow> subject \<Rightarrow> string \<Rightarrow> string \<Rightarrow> nat
     \<Rightarrow> (ledger_error + moderationAction) \<times> 'rt ledger" where
  "takeAction db kind subj reason createdBy now =
     (if \<not> wellFormed subj then (Inl InvalidSubject, db)
      else
        (let a = \<lparr>ma_id = nextActionId db, ma_kind = kind, ma_subject = subj,
                  ma_reason = reason, ma_createdBy = createdBy, ma_createdAt = now,
                  ma_reversedBy = None, ma_reversedAt = None, ma_reversedReason = None\<rparr>
         in (Inr a, db\<lparr>actions := actions db @ [a], nextActionId := nextActionId db + 1\<rparr>)))"

text \<open>Modelled from the spec: \<open>getAction(id)\<close>, the service method
  \<open>getActionOrThrow\<close> that the endpoint calls.\<close>

definition getActionOrThrow ::
  "'rt ledger \<Rightarrow> int \<Rightarrow> (ledger_error + moderationAction) \<times> 'rt ledger" where
  "getActionOrThrow db id' =
     (case find (\<lambda>a. ma_id a = id') (actions db) of
        None \<Rightarrow> (Inl NotFound, db)
      | Some a \<Rightarrow> (Inr a, db))"

text \<open>Modelled from the spec: \<open>reverseAction(id, reversedBy, reason)\<close>, at time
  \<open>now\<close>; the three reversal fields are set together.\<close>

definition reverseAction ::
  "'rt ledger \<Rightarrow> int \<Rightarrow> string \<Rightarrow> string \<Rightarrow> nat
     \<Rightarrow> (ledger_error + moderationAction) \<times> 'rt ledger" where
  "reverseAction db id' reversedBy reason now =
     (case find (\<lambda>a. ma_id a = id') (actions db) of
        None \<Rightarrow> (Inl NotFound, db)
      | Some a \<Rightarrow>
          if status a = Reversed then (Inl AlreadyReversed, db)
          else
            (let a' = a\<lparr>ma_reversedBy := Some reversedBy, ma_reversedAt := Some now,
                         ma_reversedReason := Some reason\<rparr>
             in (Inr a',
                 db\<lparr>actions := map (\<lambda>x. if ma_id x = id' then a' else x) (actions db)\<rparr>)))"

text \<open>Modelled from the spec: \<open>createReport(reasonType, subject, reason, reportedBy)\<close>,
  at time \<open>now\<close>; no deduplication.\<close>

definition createReport ::
  "'rt ledger \<Rightarrow> 'rt \<Rightarrow> subject \<Rightarrow> string \<Rightarrow> string \<Rightarrow> nat
     \<Rightarrow> (ledger_error + 'rt moderationReport) \<times> 'rt ledger" where
  "createReport db reasonType subj reason reportedBy now =
     (if \<not> wellFormed subj then (Inl InvalidSubject, db)
      else
        (let r = \<lparr>mr_id = nextReportId db, mr_reasonType = reasonType, mr_subject = subj,
                  mr_reportedBy = reportedBy, mr_reason = reason, mr_createdAt = now,
                  mr_resolvingActionId = None\<rparr>
         in (Inr r, db\<lparr>reports := reports db @ [r], nextReportId := nextReportId db + 1\<rparr>)))"

text \<open>Modelled from the spec: looking a report up by its id.\<close>

definition getReport :: "'rt ledger \<Rightarrow> int \<Rightarrow> 'rt moderationReport option" where
  "getReport db id' = find (\<lambda>r. mr_id r = id') (reports db)"

text \<open>Modelled from the spec: \<open>resolveReports(actionId, reportIds, createdBy)\<close>. The
  checks run in the order the specification lists them: NotFound for an unknown action
  or an unknown report, then AlreadyResolved for a listed report that has a
  \<open>resolvingActionId\<close>; only then are all listed reports linked, in one update.\<close>

definition resolveReports ::
  "'rt ledger \<Rightarrow> int \<Rightarrow> int list \<Rightarrow> string
     \<Rightarrow> (ledger_error + 'rt moderationReport list) \<times> 'rt ledger" where
  "resolveReports db actionId reportIds createdBy =
     (if find (\<lambda>a. ma_id a = actionId) (actions db) = None then (Inl NotFound, db)
      else if list_ex (\<lambda>i. getReport db i = None) reportIds then (Inl NotFound, db)
      else if list_ex (\<lambda>i. case getReport db i of
                               None \<Rightarrow> False
                             | Some r \<Rightarrow> mr_resolvingActionId r \<noteq> None) reportIds
           then (Inl AlreadyResolved, db)
      else
        (let db' = db\<lparr>reports :=
                        map (\<lambda>r. if mr_id r \<in> set reportIds
                                  then r\<lparr>mr_resolvingActionId := Some actionId\<rparr> else r)
                          (reports db)\<rparr>
         in (Inr (List.map_filter (getReport db') reportIds), db')))"

text \<open>
  The operations that change the store, as one step function: what any later sequence
  of calls can do to an action or a report.
\<close>

datatype 'rt ledger_op =
    TakeAction actionKind subject string string nat
  | ReverseAction int string string nat
  | GetAction int
  | CreateReport 'rt subject string string nat
  | ResolveReports int "int list" string

fun perform :: "'rt ledger \<Rightarrow> 'rt ledger_op \<Rightarrow> 'rt ledger" where
  "perform db (TakeAction kind subj reason createdBy now) =
     snd (takeAction db kind subj reason createdBy now)"
| "perform db (ReverseAction id' reversedBy reason now) =
     snd (reverseAction db id' reversedBy reason now)"
| "perform db (GetAction id') = snd (getActionOrThrow db id')"
| "perform db (CreateReport reasonType subj reason reportedBy now) =
     snd (createReport db reasonType subj reason reportedBy now)"
| "perform db (ResolveReports actionId reportIds createdBy) =
     snd (resolveReports db actionId reportIds createdBy)"

definition performAll :: "'rt ledger \<Rightarrow> 'rt ledger_op list \<Rightarrow> 'rt ledger" where
  "performAll db ops = foldl perform db ops"


section \<open>The endpoint getModerationAction (getModerationAction.ts)\<close>

text \<open>What the handler returns: \<open>{encoding, body}\<close>.\<close>

record 'v handlerOutput =
  out_encoding :: jsstring
  out_body :: 'v

text \<open>
  The handler registered for \<open>com.atproto.admin.getModerationAction\<close>. \<open>db\<close> is
  \<open>ctx.db.getPrimary()\<close>; the moderation service over it gives
  \<open>getActionOrThrow\<close>, whose rejection propagates out of the handler, and the view
  builder \<open>views.actionDetail\<close>, a parameter here.
\<close>

definition getModerationAction ::
  "('rt ledger \<Rightarrow> moderationAction \<Rightarrow> 'v) \<Rightarrow> 'rt ledger \<Rightarrow> int
     \<Rightarrow> (ledger_error + 'v handlerOutput) \<times> 'rt ledger" where
  "getModerationAction actionDetail db id' =
     (case getActionOrThrow db id' of
        (Inl e, db') \<Rightarrow> (Inl e, db')
      | (Inr result, db') \<Rightarrow>
          (Inr \<lparr>out_encoding = js ''application/json'',
                out_body = actionDetail db' result\<rparr>, db'))"


section \<open>The directive merge\<close>

text \<open>Modelled from the spec: DirectiveSet, the directives of one entity kind. The
  resolution engine is not among the sources.\<close>

record directiveSet =
  ds_filter :: bool
  ds_blur :: bool
  ds_noOverride :: bool
  ds_alert :: bool

text \<open>Modelled from the spec: the directive of an entity that receives no
  contribution, all false.\<close>

definition noDirective :: directiveSet where
  "noDirective = \<lparr>ds_filter = False, ds_blur = False, ds_noOverride = False, ds_alert = False\<rparr>"

text \<open>Modelled from the spec: most-restrictive-wins on two contributions:
  \<open>filter\<close>, \<open>blur\<close> and \<open>alert\<close> are OR'd, \<open>noOverride\<close> is true if either
  set it.\<close>

definition mergeDirectives :: "directiveSet \<Rightarrow> directiveSet \<Rightarrow> directiveSet" where
  "mergeDirectives a b =
     \<lparr>ds_filter = ds_filter a \<or> ds_filter b,
      ds_blur = ds_blur a \<or> ds_blur b,
      ds_noOverride = ds_noOverride a \<or> ds_noOverride b,
      ds_alert = ds_alert a \<or> ds_alert b\<rparr>"

text \<open>Modelled from the spec: step 4 of the resolution algorithm, merging the
  contributions that land on one entity kind in the order they are fed in.\<close>

definition mergeAll :: "directiveSet list \<Rightarrow> directiveSet" where
  "mergeAll contributions = foldl mergeDirectives noDirective contributions"


section \<open>An example ledger\<close>

text \<open>
  Two actions, the second reversed, and two reports, the second resolved by the second
  action.
\<close>

definition exampleAction :: moderationAction where
  "exampleAction =
     \<lparr>ma_id = 1, ma_kind = Takedown, ma_subject = Account ''did:example:alice'',
      ma_reason = ''spam'', ma_createdBy = ''did:example:admin'', ma_createdAt = 10,
      ma_reversedBy = None, ma_reversedAt = None, ma_reversedReason = None\<rparr>"

definition exampleReversed :: moderationAction where
  "exampleReversed =
     \<lparr>ma_id = 2, ma_kind = Flag, ma_subject = Blob ''bafyavatar'',
      ma_reason = ''nudity'', ma_createdBy = ''did:example:admin'', ma_createdAt = 11,
      ma_reversedBy = Some ''did:example:mod'', ma_reversedAt = Some 12,
      ma_reversedReason = Some ''appeal''\<rparr>"

definition exampleOpen :: "unit moderationReport" where
  "exampleOpen =
     \<lparr>mr_id = 1, mr_reasonType = (), mr_subject = Account ''did:example:alice'',
      mr_reportedBy = ''did:example:bob'', mr_reason = ''spam'', mr_createdAt = 5,
      mr_resolvingActionId = None\<rparr>"

definition exampleResolved :: "unit moderationReport" where
  "exampleResolved =
     \<lparr>mr_id = 2, mr_reasonType = (), mr_subject = Blob ''bafyavatar'',
      mr_reportedBy = ''did:example:carol'', mr_reason = ''nsfw'', mr_createdAt = 6,
      mr_resolvingActionId = Some 2\<rparr>"

definition exampleLedger :: "unit ledger" where
  "exampleLedger =
     \<lparr>actions = [exampleAction, exampleReversed], reports = [exampleOpen, exampleResolved],
      nextActionId = 3, nextReportId = 3\<rparr>"

lemmas example_defs =
  exampleLedger_def exampleAction_def exampleReversed_def exampleOpen_def exampleResolved_def


section \<open>The directive merge is a commutative monoid\<close>

lemma mergeDirectives_commute: "mergeDirectives a b = mergeDirectives b a"
  by (auto simp: mergeDirectives_def)

lemma mergeDirectives_assoc:
  "mergeDirectives (mergeDirectives a b) c = mergeDirectives a (mergeDirectives b c)"
  by (simp add: mergeDirectives_def)

lemma mergeDirectives_noDirective:
  "mergeDirectives noDirective a = a" "mergeDirectives a noDirective = a"
  by (simp_all add: mergeDirectives_def noDirective_def)

lemma foldl_mergeDirectives:
  "foldl mergeDirectives a cs =
     \<lparr>ds_filter = ds_filter a \<or> (\<exists>c \<in> set cs. ds_filter c),
      ds_blur = ds_blur a \<or> (\<exists>c \<in> set cs. ds_blur c),
      ds_noOverride = ds_noOverride a \<or> (\<exists>c \<in> set cs. ds_noOverride c),
      ds_alert = ds_alert a \<or> (\<exists>c \<in> set cs. ds_alert c)\<rparr>"
proof (induction cs arbitrary: a)
  case Nil
  show ?case by simp
next
  case (Cons c cs)
  show ?case
    unfolding foldl_Cons Cons.IH
    by (auto simp: mergeDirectives_def)
qed

lemma mergeAll_permuted:
  assumes "mset cs = mset cs'"
  shows "mergeAll cs = mergeAll cs'"
proof -
  from assms have "set cs = set cs'"
    by (rule mset_eq_setD)
  then show ?thesis
    by (simp add: mergeAll_def foldl_mergeDirectives)
qed

text \<open>
  C1. Merging directive contributions is commutative and associative with the
  all-false directive as identity, so the contributions landing on one entity kind give
  the same DirectiveSet in whatever order they are combined: two lists with the same
  multiset of contributions merge to the same result.
\<close>

theorem mergeDirectives_order_independent:
  "mergeDirectives a b = mergeDirectives b a
   \<and> mergeDirectives (mergeDirectives a b) c = mergeDirectives a (mergeDirectives b c)
   \<and> mergeDirectives noDirective a = a
   \<and> mergeDirectives a noDirective = a
   \<and> (mset cs = mset cs' \<longrightarrow> mergeAll cs = mergeAll cs')"
  using mergeDirectives_commute mergeDirectives_assoc mergeDirectives_noDirective
    mergeAll_permuted
  by blast

theorem mergeDirectives_order_independent_witness:
  "mergeAll
     [\<lparr>ds_filter = False, ds_blur = True, ds_noOverride = False, ds_alert = False\<rparr>,
      \<lparr>ds_filter = True, ds_blur = True, ds_noOverride = True, ds_alert = False\<rparr>,
      \<lparr>ds_filter = False, ds_blur = False, ds_noOverride = False, ds_alert = True\<rparr>]
   = mergeAll
     [\<lparr>ds_filter = False, ds_blur = False, ds_noOverride = False, ds_alert = True\<rparr>,
      \<lparr>ds_filter = False, ds_blur = True, ds_noOverride = False, ds_alert = False\<rparr>,
      \<lparr>ds_filter = True, ds_blur = True, ds_noOverride = True, ds_alert = False\<rparr>]
   \<and> mergeAll
     [\<lparr>ds_filter = False, ds_blur = False, ds_noOverride = False, ds_alert = True\<rparr>,
      \<lparr>ds_filter = False, ds_blur = True, ds_noOverride = False, ds_alert = False\<rparr>,
      \<lparr>ds_filter = True, ds_blur = True, ds_noOverride = True, ds_alert = False\<rparr>]
   = \<lparr>ds_filter = True, ds_blur = True, ds_noOverride = True, ds_alert = True\<rparr>"
proof -
  let ?x = "\<lparr>ds_filter = False, ds_blur = True, ds_noOverride = False, ds_alert = False\<rparr>"
  let ?y = "\<lparr>ds_filter = True, ds_blur = True, ds_noOverride = True, ds_alert = False\<rparr>"
  let ?z = "\<lparr>ds_filter = False, ds_blur = False, ds_noOverride = False, ds_alert = True\<rparr>"
  have perm: "mset [?x, ?y, ?z] = mset [?z, ?x, ?y]"
    by (simp add: ac_simps)
  have "mergeAll [?x, ?y, ?z] = mergeAll [?z, ?x, ?y]"
    using mergeDirectives_order_independent [of _ _ _ "[?x, ?y, ?z]" "[?z, ?x, ?y]"] perm
    by blast
  moreover have "mergeAll [?z, ?x, ?y]
      = \<lparr>ds_filter = True, ds_blur = True, ds_noOverride = True, ds_alert = True\<rparr>"
    by (simp add: mergeAll_def mergeDirectives_def noDirective_def)
  ultimately show ?thesis
    by simp
qed


section \<open>The markers of a scenario row\<close>






lemma scenarioSection_row:
  "scenarioSection stripIndents title s =
     stripIndents
        (nl @
         js ''  <tr>'' @ nl @
         js ''    <td><strong>'' @ title @ js ''</strong></td>'' @ nl @
         js ''    <td>'' @ nl @
         js ''      '' @ filterCell s @ nl @
         js ''    </td>'' @ nl @
         js ''    <td>'' @ nl @
         js ''      '' @ blurCell s Account_col @ nl @
         js ''      '' @ alertCell s Account_col @ nl @
         js ''    </td>'' @ nl @
         js ''    <td>'' @ nl @
         js ''      '' @ blurCell s Profile_col @ nl @
         js ''      '' @ alertCell s Profile_col @ nl @
         js ''    </td>'' @ nl @
         js ''    <td>'' @ nl @
         js ''      '' @ blurCell s Avatar_col @ nl @
         js ''      '' @ alertCell s Avatar_col @ nl @
         js ''    </td>'' @ nl @
         js ''  </tr>'' @ nl @
         js ''  '')"
  by (simp add: scenarioSection_def entityColumn_def)



text \<open>
  C3. \<open>noOverride\<close> matters only under \<open>blur\<close>: when \<open>blur\<close> is false or
  absent the blur marker is empty whatever \<open>noOverride\<close> is, so two renderings that
  differ only in \<open>noOverride\<close> agree.
\<close>

theorem blur_noOverride_needs_blur:
  "(val = None \<or> val = Some False \<longrightarrow>
      blur val noOverride = [] \<and> blur val noOverride' = blur val noOverride)
   \<and> (optChain (entityOf (behaviors s) e) bh_blur = None
        \<or> optChain (entityOf (behaviors s) e) bh_blur = Some False \<longrightarrow>
      blurCell s e = [])"
  by (auto simp: blur_def blurCell_def)

theorem blur_noOverride_needs_blur_witness:
  "blur None (Some True) = [] \<and> blur None (Some False) = blur None (Some True)
   \<and> blur (Some False) (Some True) = [] \<and> blur (Some False) None = blur (Some False) (Some True)
   \<and> blurCell \<lparr>behaviors = \<lparr>account = None,
                   profile = Some \<lparr>bh_filter = None, bh_blur = Some False,
                                    bh_noOverride = Some True, bh_alert = None\<rparr>,
                   avatar = None\<rparr>\<rparr> Profile_col = []"
  using blur_noOverride_needs_blur [of None "Some True" "Some False" _ Account_col]
    blur_noOverride_needs_blur [of "Some False" "Some True" None
      "\<lparr>behaviors = \<lparr>account = None,
                   profile = Some \<lparr>bh_filter = None, bh_blur = Some False,
                                    bh_noOverride = Some True, bh_alert = None\<rparr>,
                   avatar = None\<rparr>\<rparr>" Profile_col]
  by simp

text \<open>
  C4. The Filter cell of a rendered row is \<open>filter\<close> of the account's
  \<open>filter\<close> flag alone and an entity's alert cell is \<open>alert\<close> of that entity's
  \<open>alert\<close> flag alone, whatever the other flags and the other entities are. So
  for two scenarios that agree on \<open>behaviors.account.filter\<close>, the row of the
  second carries the Filter cell of the first; and for two scenarios that agree on an
  entity's \<open>alert\<close>, that entity's column in the row of the second carries the
  alert cell of the first.
\<close>

theorem filter_alert_independent:
  "(optChain (account (behaviors s)) bh_filter = optChain (account (behaviors s')) bh_filter
      \<longrightarrow>
      filterCell s = filterCell s'
      \<and> scenarioSection stripIndents title s' =
          stripIndents
             (nl @
              js ''  <tr>'' @ nl @
              js ''    <td><strong>'' @ title @ js ''</strong></td>'' @ nl @
              js ''    <td>'' @ nl @
              js ''      '' @ filterCell s @ nl @
              js ''    </td>'' @ nl @
              js ''    <td>'' @ nl @
              js ''      '' @ blurCell s' Account_col @ nl @
              js ''      '' @ alertCell s' Account_col @ nl @
              js ''    </td>'' @ nl @
              js ''    <td>'' @ nl @
              js ''      '' @ blurCell s' Profile_col @ nl @
              js ''      '' @ alertCell s' Profile_col @ nl @
              js ''    </td>'' @ nl @
              js ''    <td>'' @ nl @
              js ''      '' @ blurCell s' Avatar_col @ nl @
              js ''      '' @ alertCell s' Avatar_col @ nl @
              js ''    </td>'' @ nl @
              js ''  </tr>'' @ nl @
              js ''  ''))
   \<and> (optChain (entityOf (behaviors s) e) bh_alert
        = optChain (entityOf (behaviors s') e) bh_alert
      \<longrightarrow>
      alertCell s e = alertCell s' e
      \<and> entityColumn s' e =
          js ''    <td>'' @ nl @
          js ''      '' @ blurCell s' e @ nl @
          js ''      '' @ alertCell s e @ nl @
          js ''    </td>'' @ nl)
   \<and> scenarioSection stripIndents title s' =
       stripIndents
        (nl @
         js ''  <tr>'' @ nl @
         js ''    <td><strong>'' @ title @ js ''</strong></td>'' @ nl @
         js ''    <td>'' @ nl @
         js ''      '' @ filterCell s' @ nl @
         js ''    </td>'' @ nl @
         entityColumn s' Account_col @
         entityColumn s' Profile_col @
         entityColumn s' Avatar_col @
         js ''  </tr>'' @ nl @
         js ''  '')
   \<and> filterCell
        \<lparr>behaviors = \<lparr>account = Some \<lparr>bh_filter = f, bh_blur = b, bh_noOverride = n,
                                        bh_alert = a\<rparr>,
                       profile = p, avatar = v\<rparr>\<rparr> = filter_js f
   \<and> filterCell \<lparr>behaviors = \<lparr>account = None, profile = p, avatar = v\<rparr>\<rparr> = filter_js None
   \<and> alertCell
        \<lparr>behaviors = \<lparr>account = Some \<lparr>bh_filter = f, bh_blur = b, bh_noOverride = n,
                                        bh_alert = a\<rparr>,
                       profile = p, avatar = v\<rparr>\<rparr> Account_col = alert a
   \<and> alertCell
        \<lparr>behaviors = \<lparr>account = q,
                       profile = Some \<lparr>bh_filter = f, bh_blur = b, bh_noOverride = n,
                                        bh_alert = a\<rparr>,
                       avatar = v\<rparr>\<rparr> Profile_col = alert a
   \<and> alertCell
        \<lparr>behaviors = \<lparr>account = q, profile = p,
                       avatar = Some \<lparr>bh_filter = f, bh_blur = b, bh_noOverride = n,
                                       bh_alert = a\<rparr>\<rparr>\<rparr> Avatar_col = alert a"
proof -
  have cells: "filterCell s = filterCell s'"
    if "optChain (account (behaviors s)) bh_filter = optChain (account (behaviors s')) bh_filter"
    using that by (simp add: filterCell_def)
  have alerts: "alertCell s e = alertCell s' e"
    if "optChain (entityOf (behaviors s) e) bh_alert
        = optChain (entityOf (behaviors s') e) bh_alert"
    using that by (simp add: alertCell_def)
  have explicit:
    "filterCell
        \<lparr>behaviors = \<lparr>account = Some \<lparr>bh_filter = f, bh_blur = b, bh_noOverride = n,
                                        bh_alert = a\<rparr>,
                       profile = p, avatar = v\<rparr>\<rparr> = filter_js f"
    "filterCell \<lparr>behaviors = \<lparr>account = None, profile = p, avatar = v\<rparr>\<rparr> = filter_js None"
    "alertCell
        \<lparr>behaviors = \<lparr>account = Some \<lparr>bh_filter = f, bh_blur = b, bh_noOverride = n,
                                        bh_alert = a\<rparr>,
                       profile = p, avatar = v\<rparr>\<rparr> Account_col = alert a"
    "alertCell
        \<lparr>behaviors = \<lparr>account = q,
                       profile = Some \<lparr>bh_filter = f, bh_blur = b, bh_noOverride = n,
                                        bh_alert = a\<rparr>,
                       avatar = v\<rparr>\<rparr> Profile_col = alert a"
    "alertCell
        \<lparr>behaviors = \<lparr>account = q, profile = p,
                       avatar = Some \<lparr>bh_filter = f, bh_blur = b, bh_noOverride = n,
                                       bh_alert = a\<rparr>\<rparr>\<rparr> Avatar_col = alert a"
    by (simp_all add: filterCell_def alertCell_def)
  have columns: "scenarioSection stripIndents title s' =
       stripIndents
        (nl @
         js ''  <tr>'' @ nl @
         js ''    <td><strong>'' @ title @ js ''</strong></td>'' @ nl @
         js ''    <td>'' @ nl @
         js ''      '' @ filterCell s' @ nl @
         js ''    </td>'' @ nl @
         entityColumn s' Account_col @
         entityColumn s' Profile_col @
         entityColumn s' Avatar_col @
         js ''  </tr>'' @ nl @
         js ''  '')"
    by (simp add: scenarioSection_def)
  show ?thesis
    using cells alerts explicit columns scenarioSection_row [of stripIndents title s']
    by (simp add: entityColumn_def)
qed

theorem filter_alert_independent_witness:
  "filterCell
     \<lparr>behaviors = \<lparr>account = Some \<lparr>bh_filter = Some True, bh_blur = Some True,
                                     bh_noOverride = Some True, bh_alert = Some True\<rparr>,
                    profile = None, avatar = None\<rparr>\<rparr>
   = filterCell
     \<lparr>behaviors = \<lparr>account = Some \<lparr>bh_filter = Some True, bh_blur = None,
                                     bh_noOverride = Some False, bh_alert = Some True\<rparr>,
                    profile = Some \<lparr>bh_filter = None, bh_blur = Some True,
                                     bh_noOverride = None, bh_alert = None\<rparr>,
                    avatar = None\<rparr>\<rparr>
   \<and> alertCell
     \<lparr>behaviors = \<lparr>account = Some \<lparr>bh_filter = Some True, bh_blur = Some True,
                                     bh_noOverride = Some True, bh_alert = Some True\<rparr>,
                    profile = None, avatar = None\<rparr>\<rparr> Account_col
   = alertCell
     \<lparr>behaviors = \<lparr>account = Some \<lparr>bh_filter = Some True, bh_blur = None,
                                     bh_noOverride = Some False, bh_alert = Some True\<rparr>,
                    profile = Some \<lparr>bh_filter = None, bh_blur = Some True,
                                     bh_noOverride = None, bh_alert = None\<rparr>,
                    avatar = None\<rparr>\<rparr> Account_col
   \<and> entityColumn
     \<lparr>behaviors = \<lparr>account = Some \<lparr>bh_filter = Some True, bh_blur = None,
                                     bh_noOverride = Some False, bh_alert = Some True\<rparr>,
                    profile = Some \<lparr>bh_filter = None, bh_blur = Some True,
                                     bh_noOverride = None, bh_alert = None\<rparr>,
                    avatar = None\<rparr>\<rparr> Account_col
   = js ''    <td>'' @ nl @
     js ''      '' @ nl @
     js ''      '' @ mark_alert @ nl @
     js ''    </td>'' @ nl"
proof -
  let ?s = "\<lparr>behaviors = \<lparr>account = Some \<lparr>bh_filter = Some True, bh_blur = Some True,
                                     bh_noOverride = Some True, bh_alert = Some True\<rparr>,
                    profile = None, avatar = None\<rparr>\<rparr>"
  let ?t = "\<lparr>behaviors = \<lparr>account = Some \<lparr>bh_filter = Some True, bh_blur = None,
                                     bh_noOverride = Some False, bh_alert = Some True\<rparr>,
                    profile = Some \<lparr>bh_filter = None, bh_blur = Some True,
                                     bh_noOverride = None, bh_alert = None\<rparr>,
                    avatar = None\<rparr>\<rparr>"
  have agree: "optChain (account (behaviors ?s)) bh_filter
        = optChain (account (behaviors ?t)) bh_filter"
    "optChain (entityOf (behaviors ?s) Account_col) bh_alert
        = optChain (entityOf (behaviors ?t) Account_col) bh_alert"
    by simp_all
  have "filterCell ?s = filterCell ?t" and "alertCell ?s Account_col = alertCell ?t Account_col"
    and "entityColumn ?t Account_col =
          js ''    <td>'' @ nl @
          js ''      '' @ blurCell ?t Account_col @ nl @
          js ''      '' @ alertCell ?s Account_col @ nl @
          js ''    </td>'' @ nl"
    using filter_alert_independent
      [where s = ?s and s' = ?t and e = Account_col and stripIndents = "\<lambda>x. x"
         and title = "js ''Example''" and f = None and b = None and n = None and a = None
         and p = None and q = None and v = None]
      agree
    by blast+
  moreover have "blurCell ?t Account_col = []" and "alertCell ?s Account_col = mark_alert"
    by (simp_all add: blurCell_def alertCell_def blur_def alert_def)
  ultimately show ?thesis
    by simp
qed


section \<open>Header rows of the scenarios table\<close>














section \<open>Domains accepted by the ServerConfig constructor\<close>

lemma ServerConfig_constructor_valid:
  assumes "\<forall>d \<in> set (availableUserDomains cfg). d \<noteq> [] \<and> prefix (js ''.'') d"
  shows "ServerConfig_constructor cfg = Inr cfg"
proof -
  from assms have
    "find (\<lambda>domain. length domain < 1 \<or> \<not> prefix (js ''.'') domain)
       (availableUserDomains cfg) = None"
    by (auto simp: find_None_iff)
  then show ?thesis
    by (simp add: ServerConfig_constructor_def)
qed

lemma ServerConfig_constructor_throws_iff:
  "(\<exists>e. ServerConfig_constructor cfg = Inl e) \<longleftrightarrow>
   (\<exists>d. find (\<lambda>domain. length domain < 1 \<or> \<not> prefix (js ''.'') domain)
           (availableUserDomains cfg) = Some d \<and> d \<noteq> [])"
  by (auto simp: ServerConfig_constructor_def Let_def split: option.splits)

text \<open>
  C8. The constructor is meant to throw iff some entry of \<open>availableUserDomains\<close> is
  empty or lacks the leading dot. An empty entry that is the first invalid one is what
  \<open>find\<close> returns, and being the empty string it fails the test
  \<open>if (invalidDomain)\<close>: construction succeeds, also when a later entry lacks the dot.
\<close>

theorem ServerConfig_constructor_empty_domain:
  "ServerConfig_constructor \<lparr>availableUserDomains = [js ''.test'', []]\<rparr>
     = Inr \<lparr>availableUserDomains = [js ''.test'', []]\<rparr>
   \<and> ServerConfig_constructor \<lparr>availableUserDomains = [[], js ''example.com'']\<rparr>
     = Inr \<lparr>availableUserDomains = [[], js ''example.com'']\<rparr>
   \<and> ServerConfig_constructor \<lparr>availableUserDomains = [js ''example.com'', []]\<rparr>
     = Inl (Error (js ''Invalid domain: example.com''))"
  by (simp add: ServerConfig_constructor_def js_def)

section \<open>The admin guard of the seed client\<close>

lemma truthyStr_iff: "truthyStr auth \<longleftrightarrow> (\<exists>a. auth = Some a \<and> a \<noteq> [])"
  by (cases auth) auto

lemma orDefault_case: "orDefault v d = (case v of None \<Rightarrow> d | Some x \<Rightarrow> x)"
  by (cases v) auto

text \<open>
  C9, as the code has it. With \<open>adminAuth\<close> undefined or the empty string, each of the
  three wrappers throws \<open>No admin auth provided to seed client\<close> and the agent is
  not called: the result is the same for every agent, and the server state is
  untouched. With a non-empty \<open>adminAuth\<close>, each wrapper sends one request whose
  \<open>authorization\<close> header is that value, with \<open>createdBy\<close> defaulting to
  \<open>did:example:admin\<close> and, in the two wrappers that take a reason, \<open>reason\<close>
  defaulting to \<open>X\<close>.
\<close>

theorem seedClient_admin_wrappers:
  "(adminAuth this = None \<or> adminAuth this = Some [] \<longrightarrow>
      takeModerationAction this topts w = (Inl noAdminAuth, w)
      \<and> reverseModerationAction this ropts w = (Inl noAdminAuth, w)
      \<and> resolveReports_client this sopts w = (Inl noAdminAuth, w))
   \<and> (adminAuth this = Some a \<and> a \<noteq> [] \<longrightarrow>
      takeModerationAction this topts w =
        returnData (agent this
          (TakeModerationAction
             \<lparr>tb_action = to_action topts, tb_subject = to_subject topts,
              tb_createdBy = (case to_createdBy topts of
                                None \<Rightarrow> js ''did:example:admin'' | Some c \<Rightarrow> c),
              tb_reason = (case to_reason topts of None \<Rightarrow> js ''X'' | Some r \<Rightarrow> r)\<rparr>
             \<lparr>encoding = js ''application/json'', headers = [(js ''authorization'', a)]\<rparr>) w)
      \<and> reverseModerationAction this ropts w =
        returnData (agent this
          (ReverseModerationAction
             \<lparr>rb_id = ro_id ropts,
              rb_reason = (case ro_reason ropts of None \<Rightarrow> js ''X'' | Some r \<Rightarrow> r),
              rb_createdBy = (case ro_createdBy ropts of
                                None \<Rightarrow> js ''did:example:admin'' | Some c \<Rightarrow> c)\<rparr>
             \<lparr>encoding = js ''application/json'', headers = [(js ''authorization'', a)]\<rparr>) w)
      \<and> resolveReports_client this sopts w =
        returnData (agent this
          (ResolveModerationReports
             \<lparr>sb_actionId = so_actionId sopts,
              sb_createdBy = (case so_createdBy sopts of
                                None \<Rightarrow> js ''did:example:admin'' | Some c \<Rightarrow> c),
              sb_reportIds = so_reportIds sopts\<rparr>
             \<lparr>encoding = js ''application/json'', headers = [(js ''authorization'', a)]\<rparr>) w))"
  by (auto simp: takeModerationAction_def reverseModerationAction_def
      resolveReports_client_def adminCall_def orDefault_case Let_def)

text \<open>
  The agent of the examples records every request it receives and answers with the
  number of requests received before.
\<close>

theorem seedClient_admin_wrappers_witness:
  "reverseModerationAction
     \<lparr>agent = (\<lambda>(req :: (actionKind, subject) request) w. (Inr \<lparr>data = length w\<rparr>, w @ [req])), adminAuth = Some (js ''Basic YWRtaW4='')\<rparr>
     \<lparr>ro_id = 7, ro_reason = None, ro_createdBy = None\<rparr> []
   = (Inr 0,
      [ReverseModerationAction
         \<lparr>rb_id = 7, rb_reason = js ''X'', rb_createdBy = js ''did:example:admin''\<rparr>
         \<lparr>encoding = js ''application/json'',
          headers = [(js ''authorization'', js ''Basic YWRtaW4='')]\<rparr>])
   \<and> resolveReports_client
     \<lparr>agent = (\<lambda>(req :: (actionKind, subject) request) w. (Inr \<lparr>data = length w\<rparr>, w @ [req])), adminAuth = None\<rparr>
     \<lparr>so_actionId = 1, so_reportIds = [2, 3], so_createdBy = Some (js ''did:example:mod'')\<rparr> []
   = (Inl noAdminAuth, [])"
proof -
  let ?agent = "\<lambda>(req :: (actionKind, subject) request) w. (Inr \<lparr>data = length w\<rparr>, w @ [req])"
  have "reverseModerationAction
          \<lparr>agent = ?agent, adminAuth = Some (js ''Basic YWRtaW4='')\<rparr>
          \<lparr>ro_id = 7, ro_reason = None, ro_createdBy = None\<rparr> []
        = returnData (?agent
          (ReverseModerationAction
             \<lparr>rb_id = 7, rb_reason = js ''X'', rb_createdBy = js ''did:example:admin''\<rparr>
             \<lparr>encoding = js ''application/json'',
              headers = [(js ''authorization'', js ''Basic YWRtaW4='')]\<rparr>) [])"
    using seedClient_admin_wrappers
      [where this = "\<lparr>agent = ?agent, adminAuth = Some (js ''Basic YWRtaW4='')\<rparr>"
         and ropts = "\<lparr>ro_id = 7, ro_reason = None, ro_createdBy = None\<rparr>"
         and topts = "\<lparr>to_action = Takedown, to_subject = Account ''did:example:alice'',
           to_reason = None, to_createdBy = None\<rparr>"
         and sopts = "\<lparr>so_actionId = 1, so_reportIds = [2, 3],
           so_createdBy = Some (js ''did:example:mod'')\<rparr>"
         and w = "[]" and a = "js ''Basic YWRtaW4=''"]
    by (simp add: js_def)
  moreover have "resolveReports_client \<lparr>agent = ?agent, adminAuth = None\<rparr>
          \<lparr>so_actionId = 1, so_reportIds = [2, 3],
           so_createdBy = Some (js ''did:example:mod'')\<rparr> []
        = (Inl noAdminAuth, [])"
    using seedClient_admin_wrappers
      [where this = "\<lparr>agent = ?agent, adminAuth = None\<rparr>"
         and ropts = "\<lparr>ro_id = 7, ro_reason = None, ro_createdBy = None\<rparr>"
         and topts = "\<lparr>to_action = Takedown, to_subject = Account ''did:example:alice'',
           to_reason = None, to_createdBy = None\<rparr>"
         and sopts = "\<lparr>so_actionId = 1, so_reportIds = [2, 3],
           so_createdBy = Some (js ''did:example:mod'')\<rparr>"
         and w = "[]" and a = "[]"]
    by simp
  ultimately show ?thesis
    by simp
qed

theorem seedClient_empty_adminAuth_counterexample:
  "takeModerationAction
     \<lparr>agent = (\<lambda>(req :: (actionKind, subject) request) w. (Inr \<lparr>data = length w\<rparr>, w @ [req])), adminAuth = Some []\<rparr>
     \<lparr>to_action = Takedown, to_subject = Account ''did:example:alice'',
      to_reason = None, to_createdBy = None\<rparr> []
   = (Inl noAdminAuth, [])"
  by (simp add: takeModerationAction_def)


section \<open>Lookups in the ledger\<close>

lemma find_append_Some:
  "find P xs = Some x \<Longrightarrow> find P (xs @ ys) = Some x"
  by (induction xs) (auto split: if_splits)

lemma find_map_preserved:
  assumes "\<And>x. P (f x) = P x"
  shows "find P (map f xs) = map_option f (find P xs)"
  using assms by (induction xs) auto

lemma find_Some_holds: "find P xs = Some x \<Longrightarrow> P x \<and> x \<in> set xs"
  by (induction xs) (auto split: if_splits)

lemma find_known: "(\<exists>a. find P xs = Some a) \<longleftrightarrow> (\<exists>x \<in> set xs. P x)"
  by (induction xs) auto

lemma getActionOrThrow_known:
  assumes "id' \<in> ma_id ` set (actions db)"
  shows "\<exists>a. a \<in> set (actions db) \<and> ma_id a = id' \<and> getActionOrThrow db id' = (Inr a, db)"
proof -
  from assms have "\<exists>x \<in> set (actions db). ma_id x = id'"
    by auto
  then obtain a where a: "find (\<lambda>a. ma_id a = id') (actions db) = Some a"
    using find_known [of "\<lambda>a. ma_id a = id'" "actions db"] by blast
  with find_Some_holds [OF a] show ?thesis
    by (auto simp: getActionOrThrow_def)
qed

lemma getActionOrThrow_unknown:
  assumes "id' \<notin> ma_id ` set (actions db)"
  shows "getActionOrThrow db id' = (Inl NotFound, db)"
proof -
  from assms have "find (\<lambda>a. ma_id a = id') (actions db) = None"
    by (auto simp: find_None_iff)
  then show ?thesis
    by (simp add: getActionOrThrow_def)
qed

lemma getActionOrThrow_state: "snd (getActionOrThrow db id') = db"
  by (simp add: getActionOrThrow_def split: option.splits)

text \<open>
  C5. For a known id, \<open>getAction\<close> returns an action of the ledger with that id and
  the endpoint answers with its detail view; for an id that references no action,
  both fail with NotFound. The ledger is the same afterwards in either case.
\<close>

theorem getModerationAction_known_or_NotFound:
  "(id' \<in> ma_id ` set (actions db) \<longrightarrow>
      (\<exists>a. a \<in> set (actions db) \<and> ma_id a = id'
         \<and> getActionOrThrow db id' = (Inr a, db)
         \<and> getModerationAction actionDetail db id' =
             (Inr \<lparr>out_encoding = js ''application/json'', out_body = actionDetail db a\<rparr>, db)))
   \<and> (id' \<notin> ma_id ` set (actions db) \<longrightarrow>
      getActionOrThrow db id' = (Inl NotFound, db)
      \<and> getModerationAction actionDetail db id' = (Inl NotFound, db))
   \<and> snd (getActionOrThrow db id') = db
   \<and> snd (getModerationAction actionDetail db id') = db"
proof -
  have known: "\<exists>a. a \<in> set (actions db) \<and> ma_id a = id'
         \<and> getActionOrThrow db id' = (Inr a, db)
         \<and> getModerationAction actionDetail db id' =
             (Inr \<lparr>out_encoding = js ''application/json'', out_body = actionDetail db a\<rparr>, db)"
    if "id' \<in> ma_id ` set (actions db)"
  proof -
    from getActionOrThrow_known [OF that] obtain a where
      "a \<in> set (actions db)" "ma_id a = id'" "getActionOrThrow db id' = (Inr a, db)"
      by blast
    then show ?thesis
      by (auto simp: getModerationAction_def)
  qed
  have unknown: "getModerationAction actionDetail db id' = (Inl NotFound, db)"
    if "id' \<notin> ma_id ` set (actions db)"
    using getActionOrThrow_unknown [OF that] by (simp add: getModerationAction_def)
  have state: "snd (getModerationAction actionDetail db id') = db"
    by (cases "id' \<in> ma_id ` set (actions db)") (use known unknown in force)+
  show ?thesis
    using known unknown state getActionOrThrow_unknown getActionOrThrow_state by blast
qed

theorem getModerationAction_known_or_NotFound_witness:
  "getModerationAction (\<lambda>db a. ma_subject a) exampleLedger 1
     = (Inr \<lparr>out_encoding = js ''application/json'', out_body = Account ''did:example:alice''\<rparr>,
        exampleLedger)
   \<and> getModerationAction (\<lambda>db a. ma_subject a) exampleLedger 5 = (Inl NotFound, exampleLedger)"
proof -
  have known: "1 \<in> ma_id ` set (actions exampleLedger)"
    and unknown: "5 \<notin> ma_id ` set (actions exampleLedger)"
    by (simp_all add: example_defs)
  have "getModerationAction (\<lambda>db a. ma_subject a) exampleLedger 5 = (Inl NotFound, exampleLedger)"
    using getModerationAction_known_or_NotFound [of 5 exampleLedger "\<lambda>db a. ma_subject a"]
      unknown
    by blast
  moreover have "\<exists>a. a \<in> set (actions exampleLedger) \<and> ma_id a = 1
      \<and> getModerationAction (\<lambda>db a. ma_subject a) exampleLedger 1
          = (Inr \<lparr>out_encoding = js ''application/json'', out_body = ma_subject a\<rparr>,
             exampleLedger)"
    using getModerationAction_known_or_NotFound [of 1 exampleLedger "\<lambda>db a. ma_subject a"]
      known
    by blast
  then have "getModerationAction (\<lambda>db a. ma_subject a) exampleLedger 1
      = (Inr \<lparr>out_encoding = js ''application/json'',
               out_body = Account ''did:example:alice''\<rparr>, exampleLedger)"
    by (auto simp: example_defs)
  ultimately show ?thesis
    by simp
qed

section \<open>Reversal is terminal\<close>

lemma reverseAction_unknown:
  assumes "id' \<notin> ma_id ` set (actions db)"
  shows "reverseAction db id' reversedBy reason now = (Inl NotFound, db)"
proof -
  from assms have "find (\<lambda>a. ma_id a = id') (actions db) = None"
    by (auto simp: find_None_iff)
  then show ?thesis
    by (simp add: reverseAction_def)
qed

lemma reverseAction_reversed:
  assumes "find (\<lambda>a. ma_id a = id') (actions db) = Some a" and "status a = Reversed"
  shows "reverseAction db id' reversedBy reason now = (Inl AlreadyReversed, db)"
  using assms by (simp add: reverseAction_def)

lemma reverseAction_error_state:
  "fst (reverseAction db id' reversedBy reason now) = Inl e \<Longrightarrow>
   snd (reverseAction db id' reversedBy reason now) = db"
  by (auto simp: reverseAction_def Let_def split: option.splits if_splits)

lemma reverseAction_active:
  fixes a :: moderationAction and reversedBy reason :: string and now :: nat
  assumes found: "find (\<lambda>a. ma_id a = id') (actions db) = Some a"
    and active: "status a = Active"
  defines "a' \<equiv> a\<lparr>ma_reversedBy := Some reversedBy, ma_reversedAt := Some now,
                    ma_reversedReason := Some reason\<rparr>"
  shows "\<exists>db'. reverseAction db id' reversedBy reason now = (Inr a', db')
           \<and> status a' = Reversed
           \<and> find (\<lambda>a. ma_id a = id') (actions db') = Some a'
           \<and> reports db' = reports db"
proof -
  let ?f = "\<lambda>x. if ma_id x = id' then a' else x"
  from find_Some_holds [OF found] have id_a: "ma_id a = id'"
    by simp
  then have keeps: "(ma_id (?f x) = id') = (ma_id x = id')" for x
    by (simp add: a'_def)
  have "find (\<lambda>a. ma_id a = id') (map ?f (actions db)) = Some (?f a)"
    using find_map_preserved [of "\<lambda>a. ma_id a = id'" ?f "actions db"] keeps found
    by simp
  then have "find (\<lambda>a. ma_id a = id') (map ?f (actions db)) = Some a'"
    using id_a by simp
  moreover have "status a' = Reversed"
    by (simp add: status_def a'_def)
  moreover have "reverseAction db id' reversedBy reason now
      = (Inr a', db\<lparr>actions := map ?f (actions db)\<rparr>)"
    using found active by (simp add: reverseAction_def a'_def Let_def)
  ultimately show ?thesis
    by simp
qed

lemma reverseAction_other:
  assumes found: "find (\<lambda>a. ma_id a = i) (actions db) = Some a" and "j \<noteq> i"
  shows "find (\<lambda>a. ma_id a = i) (actions (snd (reverseAction db j reversedBy reason now))) = Some a"
proof (cases "find (\<lambda>a. ma_id a = j) (actions db)")
  case None
  then show ?thesis
    using found by (simp add: reverseAction_def)
next
  case (Some b)
  from find_Some_holds [OF Some] have id_b: "ma_id b = j"
    by simp
  define b' where "b' = b\<lparr>ma_reversedBy := Some reversedBy, ma_reversedAt := Some now,
                    ma_reversedReason := Some reason\<rparr>"
  let ?f = "\<lambda>x. if ma_id x = j then b' else x"
  have keeps: "(ma_id (?f x) = i) = (ma_id x = i)" for x
    using id_b \<open>j \<noteq> i\<close> by (auto simp: b'_def)
  from find_Some_holds [OF found] have "ma_id a = i"
    by simp
  then have "?f a = a"
    using \<open>j \<noteq> i\<close> by simp
  then have "find (\<lambda>a. ma_id a = i) (map ?f (actions db)) = Some a"
    using find_map_preserved [of "\<lambda>a. ma_id a = i" ?f "actions db"] keeps found
    by simp
  then show ?thesis
    using Some found unfolding b'_def by (simp add: reverseAction_def Let_def)
qed

lemma resolveReports_actions:
  "actions (snd (resolveReports db actionId reportIds createdBy)) = actions db"
  by (simp add: resolveReports_def Let_def)

lemma perform_keeps_reversed:
  assumes found: "find (\<lambda>a. ma_id a = i) (actions db) = Some a" and rev: "status a = Reversed"
  shows "find (\<lambda>a. ma_id a = i) (actions (perform db op)) = Some a"
proof (cases op)
  case (TakeAction kind subj reason createdBy now)
  then show ?thesis
    using found by (simp add: takeAction_def Let_def find_append_Some)
next
  case (ReverseAction j reversedBy reason now)
  show ?thesis
  proof (cases "j = i")
    case True
    then show ?thesis
      using ReverseAction found reverseAction_reversed [OF found rev] by simp
  next
    case False
    then show ?thesis
      using ReverseAction reverseAction_other [OF found False] by simp
  qed
next
  case (GetAction j)
  then show ?thesis
    using found by (simp add: getActionOrThrow_state)
next
  case (CreateReport reasonType subj reason reportedBy now)
  then show ?thesis
    using found by (simp add: createReport_def Let_def)
next
  case (ResolveReports actionId reportIds createdBy)
  then show ?thesis
    using found by (simp add: resolveReports_actions)
qed

lemma performAll_keeps_reversed:
  assumes "find (\<lambda>a. ma_id a = i) (actions db) = Some a" and "status a = Reversed"
  shows "find (\<lambda>a. ma_id a = i) (actions (performAll db ops)) = Some a"
  using assms unfolding performAll_def
proof (induction ops arbitrary: db)
  case Nil
  then show ?case by simp
next
  case (Cons op ops)
  from perform_keeps_reversed [OF Cons.prems] Cons.IH Cons.prems(2)
  show ?case by simp
qed

text \<open>
  C6. \<open>reverseAction\<close> fails with NotFound for an id that references no action and
  with AlreadyReversed for an action whose status is Reversed, and every failure
  leaves the ledger as it was. On an Active action it succeeds, and the action is
  Reversed. A Reversed action is terminal: after any further sequence of ledger
  operations it is still the same action, so reversing it again fails with
  AlreadyReversed and nothing makes it Active again.
\<close>

theorem reverseAction_errors_and_terminal:
  "(id' \<notin> ma_id ` set (actions db) \<longrightarrow>
      reverseAction db id' reversedBy reason now = (Inl NotFound, db))
   \<and> (find (\<lambda>a. ma_id a = id') (actions db) = Some a \<and> status a = Reversed \<longrightarrow>
      reverseAction db id' reversedBy reason now = (Inl AlreadyReversed, db)
      \<and> getActionOrThrow (performAll db ops) id' = (Inr a, performAll db ops)
      \<and> reverseAction (performAll db ops) id' reversedBy' reason' now'
           = (Inl AlreadyReversed, performAll db ops))
   \<and> (fst (reverseAction db id' reversedBy reason now) = Inl e \<longrightarrow>
      snd (reverseAction db id' reversedBy reason now) = db)
   \<and> (find (\<lambda>a. ma_id a = id') (actions db) = Some a \<and> status a = Active \<longrightarrow>
      (\<exists>a' db'. reverseAction db id' reversedBy reason now = (Inr a', db')
         \<and> a' = a\<lparr>ma_reversedBy := Some reversedBy, ma_reversedAt := Some now,
                   ma_reversedReason := Some reason\<rparr>
         \<and> status a' = Reversed
         \<and> getActionOrThrow (performAll db' ops) id' = (Inr a', performAll db' ops)
         \<and> reverseAction (performAll db' ops) id' reversedBy' reason' now'
              = (Inl AlreadyReversed, performAll db' ops)))"
proof -
  have terminal: "getActionOrThrow (performAll d ops) id' = (Inr b, performAll d ops)
      \<and> reverseAction (performAll d ops) id' rb rr rn = (Inl AlreadyReversed, performAll d ops)"
    if "find (\<lambda>a. ma_id a = id') (actions d) = Some b" "status b = Reversed"
    for d :: "'a ledger" and b rb rr rn
    using performAll_keeps_reversed [OF that, of ops] that(2)
    by (simp add: getActionOrThrow_def reverseAction_def)
  have success: "\<exists>a' db'. reverseAction db id' reversedBy reason now = (Inr a', db')
         \<and> a' = a\<lparr>ma_reversedBy := Some reversedBy, ma_reversedAt := Some now,
                   ma_reversedReason := Some reason\<rparr>
         \<and> status a' = Reversed
         \<and> getActionOrThrow (performAll db' ops) id' = (Inr a', performAll db' ops)
         \<and> reverseAction (performAll db' ops) id' reversedBy' reason' now'
              = (Inl AlreadyReversed, performAll db' ops)"
    if "find (\<lambda>a. ma_id a = id') (actions db) = Some a" "status a = Active"
  proof -
    from reverseAction_active [OF that, where reversedBy = reversedBy and reason = reason
        and now = now] obtain db' where
      "reverseAction db id' reversedBy reason now
         = (Inr (a\<lparr>ma_reversedBy := Some reversedBy, ma_reversedAt := Some now,
                   ma_reversedReason := Some reason\<rparr>), db')"
      "status (a\<lparr>ma_reversedBy := Some reversedBy, ma_reversedAt := Some now,
                   ma_reversedReason := Some reason\<rparr>) = Reversed"
      "find (\<lambda>a. ma_id a = id') (actions db')
         = Some (a\<lparr>ma_reversedBy := Some reversedBy, ma_reversedAt := Some now,
                   ma_reversedReason := Some reason\<rparr>)"
      by blast
    with terminal [of db'] show ?thesis
      by blast
  qed
  show ?thesis
    using reverseAction_unknown reverseAction_reversed reverseAction_error_state
      terminal [of db a] success
    by blast
qed


theorem reverseAction_errors_and_terminal_witness:
  "reverseAction exampleLedger 9 ''did:example:mod'' ''mistake'' 20
     = (Inl NotFound, exampleLedger)
   \<and> reverseAction exampleLedger 2 ''did:example:mod'' ''mistake'' 20
     = (Inl AlreadyReversed, exampleLedger)
   \<and> getActionOrThrow
       (performAll exampleLedger
          [ReverseAction 2 ''did:example:mod'' ''again'' 21,
           TakeAction Flag (Blob ''bafyavatar'') ''nudity'' ''did:example:admin'' 22]) 2
     = (Inr exampleReversed,
        performAll exampleLedger
          [ReverseAction 2 ''did:example:mod'' ''again'' 21,
           TakeAction Flag (Blob ''bafyavatar'') ''nudity'' ''did:example:admin'' 22])
   \<and> fst (reverseAction exampleLedger 1 ''did:example:mod'' ''mistake'' 20)
     = Inr (exampleAction\<lparr>ma_reversedBy := Some ''did:example:mod'', ma_reversedAt := Some 20,
                           ma_reversedReason := Some ''mistake''\<rparr>)
   \<and> reverseAction (snd (reverseAction exampleLedger 1 ''did:example:mod'' ''mistake'' 20)) 1
       ''did:example:admin'' ''once more'' 30
     = (Inl AlreadyReversed, snd (reverseAction exampleLedger 1 ''did:example:mod'' ''mistake'' 20))"
proof -
  let ?ops = "[ReverseAction 2 ''did:example:mod'' ''again'' 21,
           TakeAction Flag (Blob ''bafyavatar'') ''nudity'' ''did:example:admin'' 22]
           :: unit ledger_op list"
  have unknown: "9 \<notin> ma_id ` set (actions exampleLedger)"
    by (simp add: example_defs)
  have reversed: "find (\<lambda>a. ma_id a = 2) (actions exampleLedger) = Some exampleReversed
      \<and> status exampleReversed = Reversed"
    by (simp add: example_defs status_def)
  have active: "find (\<lambda>a. ma_id a = 1) (actions exampleLedger) = Some exampleAction
      \<and> status exampleAction = Active"
    by (simp add: example_defs status_def)
  have "reverseAction exampleLedger 9 ''did:example:mod'' ''mistake'' 20
      = (Inl NotFound, exampleLedger)"
    using reverseAction_errors_and_terminal
      [where id' = 9 and db = exampleLedger and reversedBy = "''did:example:mod''"
         and reason = "''mistake''" and now = 20] unknown
    by blast
  moreover have "reverseAction exampleLedger 2 ''did:example:mod'' ''mistake'' 20
        = (Inl AlreadyReversed, exampleLedger)
      \<and> getActionOrThrow (performAll exampleLedger ?ops) 2
        = (Inr exampleReversed, performAll exampleLedger ?ops)"
    using reverseAction_errors_and_terminal
      [where id' = 2 and db = exampleLedger and a = exampleReversed and ops = ?ops
         and reversedBy = "''did:example:mod''" and reason = "''mistake''" and now = 20]
      reversed
    by blast
  moreover have "\<exists>a' db'. reverseAction exampleLedger 1 ''did:example:mod'' ''mistake'' 20
        = (Inr a', db')
      \<and> a' = exampleAction\<lparr>ma_reversedBy := Some ''did:example:mod'',
            ma_reversedAt := Some 20, ma_reversedReason := Some ''mistake''\<rparr>
      \<and> reverseAction (performAll db' []) 1 ''did:example:admin'' ''once more'' 30
        = (Inl AlreadyReversed, performAll db' [])"
    using reverseAction_errors_and_terminal
      [where id' = 1 and db = exampleLedger and a = exampleAction and ops = "[]"
         and reversedBy = "''did:example:mod''" and reason = "''mistake''" and now = 20
         and reversedBy' = "''did:example:admin''" and reason' = "''once more''" and now' = 30]
      active
    by blast
  then have "fst (reverseAction exampleLedger 1 ''did:example:mod'' ''mistake'' 20)
        = Inr (exampleAction\<lparr>ma_reversedBy := Some ''did:example:mod'',
            ma_reversedAt := Some 20, ma_reversedReason := Some ''mistake''\<rparr>)
      \<and> reverseAction (snd (reverseAction exampleLedger 1 ''did:example:mod'' ''mistake'' 20)) 1
           ''did:example:admin'' ''once more'' 30
        = (Inl AlreadyReversed,
           snd (reverseAction exampleLedger 1 ''did:example:mod'' ''mistake'' 20))"
    by (auto simp: performAll_def)
  ultimately show ?thesis
    by blast
qed

section \<open>Resolution of reports is all-or-nothing\<close>














end
